theory Spec2Isabelle
  imports Main "HOL-Library.Stream" "HOL-Library.Sublist"
begin

section \<open>Python values used by the assistant\<close>

text \<open>
  A Python \<open>str\<close> is a \<^typ>\<open>string\<close>; a character stands for the code point of the same
  number, so the model covers the strings whose code points are below 256. The
  exceptions the modelled code can raise are values of \<open>exn\<close>, each carrying the text
  that \<open>str(e)\<close> is computed from.
\<close>

datatype exn =
    ValueError string
  | KeyError string
  | AttributeError string
  | RuntimeError string
  | UnicodeDecodeError string
  | UnicodeEncodeError string

text \<open>
  \<open>str(e)\<close>. For a \<open>KeyError\<close> it is the \<open>repr\<close> of the missing key; the only keys the
  modelled code looks up with \<open>[]\<close> are the literals \<open>'role'\<close> and \<open>'message'\<close>, whose
  \<open>repr\<close> is the key between single quotes.
\<close>

fun str_of_exn :: "exn \<Rightarrow> string" where
  "str_of_exn (ValueError m) = m"
| "str_of_exn (KeyError k) = [CHR 0x27] @ k @ [CHR 0x27]"
| "str_of_exn (AttributeError m) = m"
| "str_of_exn (RuntimeError m) = m"
| "str_of_exn (UnicodeDecodeError m) = m"
| "str_of_exn (UnicodeEncodeError m) = m"

text \<open>\<open>sep.join(parts)\<close>\<close>

fun py_join :: "string \<Rightarrow> string list \<Rightarrow> string" where
  "py_join sep [] = []"
| "py_join sep [p] = p"
| "py_join sep (p # q # ps) = p @ sep @ py_join sep (q # ps)"

text \<open>
  \<open>xs[i:]\<close>: a negative start counts from the end and is clamped at the front of the
  list; a start beyond the end gives the empty list. \<open>xs[-0:]\<close> is \<open>xs[0:]\<close>, the whole
  list.
\<close>

definition py_slice_from :: "int \<Rightarrow> 'a list \<Rightarrow> 'a list" where
  "py_slice_from i xs =
     (if i < 0 then drop (nat (int (length xs) + i)) xs else drop (nat i) xs)"

text \<open>
  \<open>str.isspace\<close> on one character, for the code points below 256: TAB to CR, the four
  separators FS to US, the space, NEL and the no-break space.
\<close>

definition is_space :: "char \<Rightarrow> bool" where
  "is_space c = ((of_char c :: nat) \<in> {9, 10, 11, 12, 13, 28, 29, 30, 31, 32, 133, 160})"

text \<open>\<open>s.strip()\<close>\<close>

definition strip :: "string \<Rightarrow> string" where
  "strip s = rev (dropWhile is_space (rev (dropWhile is_space s)))"

text \<open>
  \<open>s.lower()\<close>, for the code points below 256: the letters A to Z and the accented
  capitals 192 to 222 (the multiplication sign 215 apart) move up by 32.
\<close>

definition lower_char :: "char \<Rightarrow> char" where
  "lower_char c =
     (let n = (of_char c :: nat)
      in if (65 \<le> n \<and> n \<le> 90) \<or> (192 \<le> n \<and> n \<le> 222 \<and> n \<noteq> 215)
         then char_of (n + 32) else c)"

definition lower :: "string \<Rightarrow> string" where
  "lower s = map lower_char s"

text \<open>\<open>needle in hay\<close> for strings: \<open>needle\<close> occurs as a contiguous run of \<open>hay\<close>.\<close>

fun contains :: "string \<Rightarrow> string \<Rightarrow> bool" where
  "contains needle [] = (needle = [])"
| "contains needle (h # hay) = (prefix needle (h # hay) \<or> contains needle hay)"

text \<open>
  The values \<open>json.load\<close> returns. Numbers with a fractional part are left out: no
  operation of the store looks inside a number. A \<open>dict\<close> is the list of its items in
  insertion order.
\<close>

datatype pyval =
    PNone
  | PBool bool
  | PInt int
  | PStr string
  | PList "pyval list"
  | PDict "(string \<times> pyval) list"

text \<open>\<open>type(v).__name__\<close>\<close>

fun type_name :: "pyval \<Rightarrow> string" where
  "type_name PNone = ''NoneType''"
| "type_name (PBool b) = ''bool''"
| "type_name (PInt i) = ''int''"
| "type_name (PStr s) = ''str''"
| "type_name (PList xs) = ''list''"
| "type_name (PDict kvs) = ''dict''"

section \<open>The world outside the process\<close>

text \<open>
  What a path holds when the store reads it:
  \<^item> \<open>Missing\<close>: \<open>os.path.exists\<close> is false;
  \<^item> \<open>Unreadable e\<close>: \<open>open\<close> or the read raises an \<open>IOError\<close> with \<open>str(e) = e\<close>;
  \<^item> \<open>Misencoded e\<close>: the bytes are not UTF-8, the read raises \<open>UnicodeDecodeError\<close>;
  \<^item> \<open>Undecodable e\<close>: the text is not JSON, \<open>json.load\<close> raises \<open>JSONDecodeError\<close>;
  \<^item> \<open>Holds v\<close>: the text is the JSON document that \<open>json.load\<close> decodes to \<open>v\<close>.

  A text is represented by what reading it gives. Python's \<open>json\<close> module is outside
  this repository: how the text that \<open>json.dump\<close> writes for a value reads is given
  by the world (\<open>dumped\<close> below), and that it decodes to the dumped value is a
  hypothesis wherever a property needs it.
\<close>

datatype file_state =
    Missing
  | Unreadable string
  | Misencoded string
  | Undecodable string
  | Holds pyval

text \<open>
  What happens when the store opens a path with mode \<open>w\<close> and dumps its document:
  \<^item> \<open>Write_ok\<close>: the file is opened and the whole text is written;
  \<^item> \<open>Open_fails e\<close>: \<open>open\<close> raises an \<open>IOError\<close> with \<open>str(e) = e\<close>; the file is
    untouched;
  \<^item> \<open>Write_fails e d\<close>: the file is opened, which truncates it, and the write or the
    close raises an \<open>IOError\<close> with \<open>str(e) = e\<close>;
  \<^item> \<open>Encode_fails e d\<close>: the file is opened, which truncates it, and the write raises
    a \<open>UnicodeEncodeError\<close> with \<open>str(e) = e\<close>, as the UTF-8 encoder does for a text with
    a lone surrogate. Such a text is beyond the strings of this model, so the world
    says whether it happens.

  After the last two the file holds a proper prefix of the text of a JSON object,
  which is not JSON: \<open>d\<close> is the text of the \<open>JSONDecodeError\<close> that reading it raises.
\<close>

datatype write_result =
    Write_ok
  | Open_fails string
  | Write_fails string string
  | Encode_fails string string

text \<open>
  The world: the files, what writing each path leads to, how the text that
  \<open>json.dump(v, f, indent=2, ensure_ascii=False)\<close> writes in full reads afterwards
  (\<open>Holds v\<close> when \<open>json.load\<close> decodes it to \<open>v\<close> again), the readings
  \<open>datetime.now().isoformat()\<close> will return, in order, the lines printed so far, and
  the prompts sent to the model provider so far.
\<close>

record world =
  files :: "string \<Rightarrow> file_state"
  on_write :: "string \<Rightarrow> write_result"
  dumped :: "pyval \<Rightarrow> file_state"
  clock :: "string stream"
  stdout :: "string list"
  requests :: "string list"

definition print :: "string \<Rightarrow> world \<Rightarrow> world" where
  "print line w = w\<lparr>stdout := stdout w @ [line]\<rparr>"

section \<open>\<open>jarvis/memory.py\<close>: the transcript store\<close>

text \<open>
  A message is a \<open>Dict[str, str]\<close>, the list of its items in insertion order;
  \<open>self.conversation\<close> is a \<open>List[Dict[str, str]]\<close>, as the class declares it.
\<close>

type_synonym message = "(string \<times> string) list"

record memory =
  memory_file :: string
  max_history :: int
  conversation :: "message list"

text \<open>\<open>msg[key]\<close>\<close>

definition getitem :: "message \<Rightarrow> string \<Rightarrow> exn + string" where
  "getitem msg key = (case map_of msg key of None \<Rightarrow> Inl (KeyError key) | Some v \<Rightarrow> Inr v)"

text \<open>A conversation as the value \<open>json.dump\<close> serialises, and back.\<close>

definition pyval_of_message :: "message \<Rightarrow> pyval" where
  "pyval_of_message msg = PDict (map (\<lambda>(k, v). (k, PStr v)) msg)"

definition pyval_of_conversation :: "message list \<Rightarrow> pyval" where
  "pyval_of_conversation c = PList (map pyval_of_message c)"

fun items_of :: "(string \<times> pyval) list \<Rightarrow> message option" where
  "items_of [] = Some []"
| "items_of ((k, PStr v) # kvs) =
     (case items_of kvs of None \<Rightarrow> None | Some m \<Rightarrow> Some ((k, v) # m))"
| "items_of ((k, _) # kvs) = None"

fun messages_of :: "pyval list \<Rightarrow> message list option" where
  "messages_of [] = Some []"
| "messages_of (PDict kvs # vs) =
     (case items_of kvs of None \<Rightarrow> None
      | Some m \<Rightarrow> (case messages_of vs of None \<Rightarrow> None | Some ms \<Rightarrow> Some (m # ms)))"
| "messages_of (_ # vs) = None"

text \<open>
  The values of type \<open>List[Dict[str, str]]\<close> among the decoded values; \<open>None\<close> for a
  value outside the declared type of \<open>self.conversation\<close>.
\<close>

fun conversation_of :: "pyval \<Rightarrow> message list option" where
  "conversation_of (PList vs) = messages_of vs"
| "conversation_of _ = None"

text \<open>
  How a call that builds an object ends: it raises, or it returns the object, or it
  returns an object whose \<open>conversation\<close> attribute is bound to a value outside
  \<open>List[Dict[str, str]]\<close> (the code assigns what it read unchecked); such an object is
  followed no further.
\<close>

datatype 'a construct =
    Raised exn
  | Ill_typed pyval
  | Built 'a

text \<open>
  \<open>Memory._load_from_file\<close>, returning the value it binds \<open>self.conversation\<close> to. The
  \<open>except\<close> clause catches \<open>JSONDecodeError\<close> and \<open>IOError\<close> only: a
  \<open>UnicodeDecodeError\<close> (a \<open>ValueError\<close>) and the \<open>AttributeError\<close> of \<open>data.get\<close> on a
  decoded value that is not a \<open>dict\<close> pass through it.
\<close>

definition load_from_file :: "string \<Rightarrow> world \<Rightarrow> message list construct \<times> world" where
  "load_from_file path w =
     (case files w path of
        Missing \<Rightarrow> (Built [], w)
      | Unreadable e \<Rightarrow> (Built [], print (''Warning: Could not load memory file: '' @ e) w)
      | Misencoded e \<Rightarrow> (Raised (UnicodeDecodeError e), w)
      | Undecodable e \<Rightarrow> (Built [], print (''Warning: Could not load memory file: '' @ e) w)
      | Holds data \<Rightarrow>
          (case data of
             PDict kvs \<Rightarrow>
               (case map_of kvs ''messages'' of
                  None \<Rightarrow> (Built [], w)
                | Some v \<Rightarrow>
                    (case conversation_of v of
                       None \<Rightarrow> (Ill_typed v, w)
                     | Some c \<Rightarrow> (Built c, w)))
           | _ \<Rightarrow>
               (Raised (AttributeError
                  ([CHR 0x27] @ type_name data @ [CHR 0x27]
                    @ '' object has no attribute 'get'' @ [CHR 0x27])), w)))"

text \<open>\<open>Memory.__init__\<close>\<close>

definition Memory_init :: "string \<Rightarrow> int \<Rightarrow> world \<Rightarrow> memory construct \<times> world" where
  "Memory_init path maxh w =
     (case load_from_file path w of
        (Raised e, w') \<Rightarrow> (Raised e, w')
      | (Ill_typed v, w') \<Rightarrow> (Ill_typed v, w')
      | (Built c, w') \<Rightarrow>
          (Built \<lparr>memory_file = path, max_history = maxh, conversation = c\<rparr>, w'))"

text \<open>The \<open>dict\<close> that \<open>Memory._save_to_file\<close> dumps.\<close>

definition document :: "message list \<Rightarrow> string \<Rightarrow> pyval" where
  "document c stamp =
     PDict [(''messages'', pyval_of_conversation c), (''last_updated'', PStr stamp)]"

text \<open>
  \<open>Memory._save_to_file\<close>. The document is built, reading the clock, before the file
  is opened. The \<open>except\<close> clause catches an \<open>IOError\<close>, of \<open>open\<close> or of the write, and
  prints it; a \<open>UnicodeEncodeError\<close> of the write is not an \<open>IOError\<close> and leaves the
  method. The result is the exception that leaves the method, if any.
\<close>

definition save_to_file :: "memory \<Rightarrow> world \<Rightarrow> (exn + unit) \<times> world" where
  "save_to_file m w =
     (let data = document (conversation m) (shd (clock w));
          w1 = w\<lparr>clock := stl (clock w)\<rparr>
      in case on_write w1 (memory_file m) of
           Write_ok \<Rightarrow>
             (Inr (), w1\<lparr>files := (files w1)(memory_file m := dumped w1 data)\<rparr>)
         | Open_fails e \<Rightarrow>
             (Inr (), print (''Warning: Could not save memory file: '' @ e) w1)
         | Write_fails e d \<Rightarrow>
             (Inr (), print (''Warning: Could not save memory file: '' @ e)
                        (w1\<lparr>files := (files w1)(memory_file m := Undecodable d)\<rparr>))
         | Encode_fails e d \<Rightarrow>
             (Inl (UnicodeEncodeError e),
              w1\<lparr>files := (files w1)(memory_file m := Undecodable d)\<rparr>))"

text \<open>The \<open>dict\<close> that \<open>Memory.add\<close> appends.\<close>

definition new_message :: "string \<Rightarrow> string \<Rightarrow> string \<Rightarrow> message" where
  "new_message role message stamp =
     [(''role'', role), (''message'', message), (''timestamp'', stamp)]"

text \<open>
  \<open>Memory.add\<close>. The result is the exception raised, if any, with the store and the
  world as the call leaves them: an exception of \<open>_save_to_file\<close> leaves \<open>add\<close> after the
  conversation was updated.
\<close>

definition add :: "memory \<Rightarrow> world \<Rightarrow> string \<Rightarrow> string \<Rightarrow> (exn + unit) \<times> memory \<times> world" where
  "add m w role message =
     (if role \<notin> set [''user'', ''assistant'']
      then (Inl (ValueError (''Role must be either 'user' or 'assistant'' @ [CHR 0x27])), m, w)
      else
        let c1 = conversation m @ [new_message role message (shd (clock w))];
            w1 = w\<lparr>clock := stl (clock w)\<rparr>;
            c2 = (if int (length c1) > max_history m
                  then py_slice_from (- max_history m) c1 else c1);
            m' = m\<lparr>conversation := c2\<rparr>
        in case save_to_file m' w1 of (r, w2) \<Rightarrow> (r, m', w2))"

text \<open>\<open>Memory.clear\<close>\<close>

definition clear :: "memory \<Rightarrow> world \<Rightarrow> (exn + unit) \<times> memory \<times> world" where
  "clear m w =
     (let m' = m\<lparr>conversation := []\<rparr>
      in case save_to_file m' w of (r, w1) \<Rightarrow> (r, m', w1))"

text \<open>\<open>Memory.get_history\<close>\<close>

definition get_history :: "memory \<Rightarrow> int option \<Rightarrow> message list" where
  "get_history m last_n =
     (case last_n of
        None \<Rightarrow> conversation m
      | Some n \<Rightarrow> (if n > 0 then py_slice_from (- n) (conversation m) else []))"

text \<open>
  The loop of \<open>Memory.get_context_for_prompt\<close>: one line per message; \<open>msg['role']\<close>
  is read before \<open>msg['message']\<close>, and the first missing key ends the loop.
\<close>

fun context_lines :: "message list \<Rightarrow> exn + string list" where
  "context_lines [] = Inr []"
| "context_lines (msg # msgs) =
     (case getitem msg ''role'' of
        Inl e \<Rightarrow> Inl e
      | Inr r \<Rightarrow>
          (let role_prefix = (if r = ''user'' then ''User'' else ''Assistant'')
           in case getitem msg ''message'' of
                Inl e \<Rightarrow> Inl e
              | Inr t \<Rightarrow>
                  (case context_lines msgs of
                     Inl e \<Rightarrow> Inl e
                   | Inr ls \<Rightarrow> Inr ((role_prefix @ '': '' @ t) # ls))))"

text \<open>\<open>Memory.get_context_for_prompt\<close>\<close>

definition get_context_for_prompt :: "memory \<Rightarrow> int \<Rightarrow> exn + string" where
  "get_context_for_prompt m last_n =
     (let history = get_history m (Some last_n)
      in if history = [] then Inr ''''
         else case context_lines history of
                Inl e \<Rightarrow> Inl e
              | Inr ls \<Rightarrow> Inr (py_join ''\<newline>'' (''Previous conversation:'' # ls)))"

text \<open>\<open>sum(1 for msg in msgs if msg['role'] == role)\<close>\<close>

fun count_role :: "string \<Rightarrow> message list \<Rightarrow> exn + nat" where
  "count_role role [] = Inr 0"
| "count_role role (msg # msgs) =
     (case getitem msg ''role'' of
        Inl e \<Rightarrow> Inl e
      | Inr r \<Rightarrow>
          (case count_role role msgs of
             Inl e \<Rightarrow> Inl e
           | Inr n \<Rightarrow> Inr (if r = role then Suc n else n)))"

record statistics =
  total_messages :: nat
  user_messages :: nat
  assistant_messages :: nat

text \<open>\<open>Memory.get_statistics\<close>\<close>

definition get_statistics :: "memory \<Rightarrow> exn + statistics" where
  "get_statistics m =
     (case count_role ''user'' (conversation m) of
        Inl e \<Rightarrow> Inl e
      | Inr u \<Rightarrow>
          (case count_role ''assistant'' (conversation m) of
             Inl e \<Rightarrow> Inl e
           | Inr a \<Rightarrow>
               Inr \<lparr>total_messages = length (conversation m),
                    user_messages = u, assistant_messages = a\<rparr>))"

section \<open>\<open>jarvis/prompt_controller.py\<close>: roles and prompt assembly\<close>

text \<open>
  The keys of \<open>PromptController.ROLES\<close>. \<open>self.current_role\<close> is set by \<open>__init__\<close> and
  \<open>set_role\<close> only, and both refuse a string that is not a key, so it is one of the
  four keys at all times.
\<close>

datatype role_key = General | Tutor | Coder | Mentor

text \<open>The key a string denotes; \<open>None\<close> when \<open>role not in self.ROLES\<close>.\<close>

definition role_of_string :: "string \<Rightarrow> role_key option" where
  "role_of_string s =
     (if s = ''general'' then Some General
      else if s = ''tutor'' then Some Tutor
      else if s = ''coder'' then Some Coder
      else if s = ''mentor'' then Some Mentor
      else None)"

record role_info =
  name :: string
  description :: string
  system_prompt :: string

definition general_system_prompt :: string where
  "general_system_prompt =
     ''You are JARVIS, an advanced AI assistant inspired by Iron Man's AI companion.\<newline>''
     @ ''You are intelligent, helpful, professional yet friendly, and always ready to assist.\<newline>''
     @ ''\<newline>''
     @ ''Key traits:\<newline>''
     @ ''- Professional but approachable tone\<newline>''
     @ ''- Clear and concise explanations\<newline>''
     @ ''- Proactive in offering help\<newline>''
     @ ''- Admit when you don't know something\<newline>''
     @ ''- Focus on being genuinely helpful\<newline>''
     @ ''\<newline>''
     @ ''Address the user respectfully and provide thoughtful, accurate responses.''"

definition tutor_system_prompt :: string where
  "tutor_system_prompt =
     ''You are JARVIS in Tutor Mode, an expert educational AI assistant.\<newline>''
     @ ''\<newline>''
     @ ''Your role:\<newline>''
     @ ''- Break down complex topics into understandable chunks\<newline>''
     @ ''- Use analogies and examples to explain concepts\<newline>''
     @ ''- Encourage critical thinking with guiding questions\<newline>''
     @ ''- Adapt explanations to the learner's level\<newline>''
     @ ''- Provide practice problems when appropriate\<newline>''
     @ ''- Be patient and encouraging\<newline>''
     @ ''\<newline>''
     @ ''Teaching approach:\<newline>''
     @ ''- Start with fundamentals\<newline>''
     @ ''- Build knowledge progressively\<newline>''
     @ ''- Check understanding regularly\<newline>''
     @ ''- Celebrate learning progress''"

definition coder_system_prompt :: string where
  "coder_system_prompt =
     ''You are JARVIS in Coding Assistant Mode, a specialized programming expert.\<newline>''
     @ ''\<newline>''
     @ ''Your expertise:\<newline>''
     @ ''- Write clean, efficient, well-documented code\<newline>''
     @ ''- Explain programming concepts clearly\<newline>''
     @ ''- Debug and optimize code\<newline>''
     @ ''- Suggest best practices and design patterns\<newline>''
     @ ''- Cover multiple programming languages\<newline>''
     @ ''- Provide complete, working code examples\<newline>''
     @ ''\<newline>''
     @ ''Code quality standards:\<newline>''
     @ ''- Follow language conventions\<newline>''
     @ ''- Include helpful comments\<newline>''
     @ ''- Consider edge cases\<newline>''
     @ ''- Prioritize readability and maintainability\<newline>''
     @ ''- Explain your code choices''"

definition mentor_system_prompt :: string where
  "mentor_system_prompt =
     ''You are JARVIS in Career Mentor Mode, a professional development advisor.\<newline>''
     @ ''\<newline>''
     @ ''Your guidance:\<newline>''
     @ ''- Provide career advice and insights\<newline>''
     @ ''- Help with skill development planning\<newline>''
     @ ''- Assist with resume and interview preparation\<newline>''
     @ ''- Offer industry knowledge and trends\<newline>''
     @ ''- Support goal setting and achievement\<newline>''
     @ ''- Give constructive, actionable feedback\<newline>''
     @ ''\<newline>''
     @ ''Mentoring style:\<newline>''
     @ ''- Empathetic and supportive\<newline>''
     @ ''- Honest and realistic\<newline>''
     @ ''- Focus on long-term growth\<newline>''
     @ ''- Encourage continuous learning\<newline>''
     @ ''- Help identify strengths and opportunities''"

fun ROLES :: "role_key \<Rightarrow> role_info" where
  "ROLES General =
     \<lparr>name = ''JARVIS'', description = ''General AI Assistant'',
      system_prompt = general_system_prompt\<rparr>"
| "ROLES Tutor =
     \<lparr>name = ''JARVIS (Tutor Mode)'', description = ''Learning & Education Assistant'',
      system_prompt = tutor_system_prompt\<rparr>"
| "ROLES Coder =
     \<lparr>name = ''JARVIS (Coding Assistant)'', description = ''Programming & Development Helper'',
      system_prompt = coder_system_prompt\<rparr>"
| "ROLES Mentor =
     \<lparr>name = ''JARVIS (Career Mentor)'',
      description = ''Career & Professional Development Guide'',
      system_prompt = mentor_system_prompt\<rparr>"

record prompt_controller =
  current_role :: role_key

definition invalid_role :: "string \<Rightarrow> exn" where
  "invalid_role role =
     ValueError (''Invalid role: '' @ role
       @ ''. Must be one of ['general', 'tutor', 'coder', 'mentor']'')"

text \<open>\<open>PromptController.__init__\<close>\<close>

definition PromptController_init :: "string \<Rightarrow> exn + prompt_controller" where
  "PromptController_init default_role =
     (case role_of_string default_role of
        None \<Rightarrow> Inl (invalid_role default_role)
      | Some k \<Rightarrow> Inr \<lparr>current_role = k\<rparr>)"

text \<open>\<open>PromptController.set_role\<close>\<close>

definition set_role :: "prompt_controller \<Rightarrow> string \<Rightarrow> exn + prompt_controller" where
  "set_role pc role =
     (case role_of_string role of
        None \<Rightarrow> Inl (invalid_role role)
      | Some k \<Rightarrow> Inr (pc\<lparr>current_role := k\<rparr>))"

text \<open>\<open>PromptController.get_system_prompt\<close>\<close>

definition get_system_prompt :: "prompt_controller \<Rightarrow> string" where
  "get_system_prompt pc = system_prompt (ROLES (current_role pc))"

text \<open>
  The parts \<open>build_prompt\<close> appends for the conversation context: none without a
  store or with \<open>include_context\<close> false, none for an empty context, else the context
  and a blank line. The depth is the constant 10 of the source.
\<close>

definition context_parts :: "memory option \<Rightarrow> bool \<Rightarrow> exn + string list" where
  "context_parts mem include_context =
     (if include_context then
        (case mem of
           None \<Rightarrow> Inr []
         | Some m \<Rightarrow>
             (case get_context_for_prompt m 10 of
                Inl e \<Rightarrow> Inl e
              | Inr context \<Rightarrow> Inr (if context \<noteq> [] then [context, ''''] else [])))
      else Inr [])"

text \<open>\<open>PromptController.build_prompt\<close>\<close>

definition build_prompt ::
  "prompt_controller \<Rightarrow> string \<Rightarrow> memory option \<Rightarrow> bool \<Rightarrow> exn + string" where
  "build_prompt pc user_input mem include_context =
     (case context_parts mem include_context of
        Inl e \<Rightarrow> Inl e
      | Inr cparts \<Rightarrow>
          Inr (py_join ''\<newline>''
                 ([get_system_prompt pc, ''''] @ cparts
                  @ [''User: '' @ user_input, ''Assistant:''])))"

text \<open>\<open>PromptController.format_error_response\<close>\<close>

definition format_error_response :: "prompt_controller \<Rightarrow> string \<Rightarrow> string" where
  "format_error_response pc error_message =
     ''I apologize, but I encountered an issue: '' @ error_message
     @ ''. Please try again or rephrase your request.''"

section \<open>\<open>jarvis/gemini_engine.py\<close>: the completion client\<close>

text \<open>
  What the provider's \<open>generate_content\<close> does with a prompt: it returns a response
  whose \<open>text\<close> is given (\<open>None\<close> for a false response or a \<open>text\<close> of \<open>None\<close>), or an
  exception with the given \<open>str(e)\<close> is raised in the \<open>try\<close> block. With \<open>stream=True\<close> it
  delivers chunks, given by their \<open>text\<close>, and then ends or raises.
\<close>

datatype provider_result = Responds "string option" | Throws string

record engine =
  api_key :: string
  model_name :: string
  model :: "string \<Rightarrow> provider_result"
  model_stream :: "string \<Rightarrow> string list \<times> string option"

text \<open>
  \<open>GeminiEngine.generate\<close>, called without keyword arguments as the assistant calls
  it. The request is recorded in the world.
\<close>

definition generate :: "engine \<Rightarrow> world \<Rightarrow> string \<Rightarrow> (exn + string) \<times> world" where
  "generate eng w prompt =
     (let w1 = w\<lparr>requests := requests w @ [prompt]\<rparr>
      in case model eng prompt of
           Responds t \<Rightarrow>
             (case t of
                None \<Rightarrow>
                  (Inr ''I apologize, but I couldn't generate a response. Please try again.'', w1)
              | Some s \<Rightarrow>
                  (if s \<noteq> [] then (Inr s, w1)
                   else (Inr ''I apologize, but I couldn't generate a response. Please try again.'',
                         w1)))
         | Throws e \<Rightarrow>
             (let error_msg = lower e
              in if contains ''api key'' error_msg
                 then (Inl (RuntimeError ''Invalid API key. Please check your configuration.''), w1)
                 else if contains ''quota'' error_msg
                 then (Inl (RuntimeError ''API quota exceeded. Please try again later.''), w1)
                 else if contains ''safety'' error_msg
                 then (Inr ''I cannot provide a response to that request due to safety guidelines.'',
                       w1)
                 else (Inl (RuntimeError (''Generation failed: '' @ e)), w1)))"

text \<open>
  \<open>GeminiEngine.generate_stream\<close>, consumed to its end: the fragments it yields. An
  exception of the provider is caught inside the generator and yielded as one more
  fragment; the generator itself never raises.
\<close>

definition generate_stream :: "engine \<Rightarrow> world \<Rightarrow> string \<Rightarrow> string list \<times> world" where
  "generate_stream eng w prompt =
     (let w1 = w\<lparr>requests := requests w @ [prompt]\<rparr>
      in case model_stream eng prompt of
           (chunks, failure) \<Rightarrow>
             (filter (\<lambda>t. t \<noteq> []) chunks
              @ (case failure of None \<Rightarrow> [] | Some e \<Rightarrow> [''Error in streaming: '' @ e]),
              w1))"

section \<open>\<open>jarvis/assistant.py\<close>: the session coordinator\<close>

record jarvis =
  engine :: engine
  prompt_controller :: prompt_controller
  memory :: memory
  conversation_started :: bool

text \<open>
  The two \<open>except\<close> clauses of \<open>respond\<close>: a \<open>RuntimeError\<close> is formatted as it is, any
  other exception with the prefix \<open>Unexpected error\<close>.
\<close>

definition error_reply :: "prompt_controller \<Rightarrow> exn \<Rightarrow> string" where
  "error_reply pc e =
     (case e of
        RuntimeError m \<Rightarrow> format_error_response pc m
      | _ \<Rightarrow> format_error_response pc (''Unexpected error: '' @ str_of_exn e))"

text \<open>\<open>JarvisAssistant.respond\<close>\<close>

definition respond :: "jarvis \<Rightarrow> world \<Rightarrow> string \<Rightarrow> bool \<Rightarrow> string \<times> jarvis \<times> world" where
  "respond a w user_input save_to_memory =
     (if user_input = [] \<or> strip user_input = []
      then (''I didn't receive any input. Please tell me how I can help you.'', a, w)
      else
        case build_prompt (prompt_controller a) user_input (Some (memory a)) True of
          Inl e \<Rightarrow> (error_reply (prompt_controller a) e, a, w)
        | Inr prompt \<Rightarrow>
            (case generate (engine a) w prompt of
               (Inl e, w1) \<Rightarrow> (error_reply (prompt_controller a) e, a, w1)
             | (Inr response, w1) \<Rightarrow>
                 (if save_to_memory then
                    (case add (memory a) w1 ''user'' user_input of
                       (Inl e, m1, w2) \<Rightarrow>
                         (error_reply (prompt_controller a) e, a\<lparr>memory := m1\<rparr>, w2)
                     | (Inr u1, m1, w2) \<Rightarrow>
                         (case add m1 w2 ''assistant'' response of
                            (Inl e, m2, w3) \<Rightarrow>
                              (error_reply (prompt_controller a) e, a\<lparr>memory := m2\<rparr>, w3)
                          | (Inr u2, m2, w3) \<Rightarrow> (response, a\<lparr>memory := m2\<rparr>, w3)))
                  else (response, a, w1))))"

text \<open>
  \<open>JarvisAssistant.respond_stream\<close>, consumed to its end: the fragments it yields,
  and the assistant and the world as the generator leaves them. Its single \<open>except\<close>
  clause formats \<open>str(e)\<close> without a prefix.
\<close>

definition respond_stream ::
  "jarvis \<Rightarrow> world \<Rightarrow> string \<Rightarrow> bool \<Rightarrow> string list \<times> jarvis \<times> world" where
  "respond_stream a w user_input save_to_memory =
     (if user_input = [] \<or> strip user_input = []
      then ([''I didn't receive any input. Please tell me how I can help you.''], a, w)
      else
        case build_prompt (prompt_controller a) user_input (Some (memory a)) True of
          Inl e \<Rightarrow> ([format_error_response (prompt_controller a) (str_of_exn e)], a, w)
        | Inr prompt \<Rightarrow>
            (case generate_stream (engine a) w prompt of
               (full_response, w1) \<Rightarrow>
                 (if save_to_memory then
                    (case add (memory a) w1 ''user'' user_input of
                       (Inl e, m1, w2) \<Rightarrow>
                         (full_response
                          @ [format_error_response (prompt_controller a) (str_of_exn e)],
                          a\<lparr>memory := m1\<rparr>, w2)
                     | (Inr u1, m1, w2) \<Rightarrow>
                         (case add m1 w2 ''assistant'' (concat full_response) of
                            (Inl e, m2, w3) \<Rightarrow>
                              (full_response
                               @ [format_error_response (prompt_controller a) (str_of_exn e)],
                               a\<lparr>memory := m2\<rparr>, w3)
                          | (Inr u2, m2, w3) \<Rightarrow> (full_response, a\<lparr>memory := m2\<rparr>, w3)))
                  else (full_response, a, w1))))"

section \<open>Clients of the store and concrete inputs\<close>

text \<open>
  A client that calls \<open>add\<close> and \<open>clear\<close> one after the other. A call that raises
  leaves the store as the call left it, and the client goes on with the next call.
\<close>

datatype call = Add string string | Clear

fun run_call :: "call \<Rightarrow> memory \<times> world \<Rightarrow> memory \<times> world" where
  "run_call (Add role message) (m, w) = snd (add m w role message)"
| "run_call Clear (m, w) = snd (clear m w)"

fun run_calls :: "call list \<Rightarrow> memory \<times> world \<Rightarrow> memory \<times> world" where
  "run_calls [] s = s"
| "run_calls (c # cs) s = run_calls cs (run_call c s)"

text \<open>Every message of the list carries the role \<open>user\<close> or the role \<open>assistant\<close>.\<close>

definition roles_valid :: "message list \<Rightarrow> bool" where
  "roles_valid c =
     list_all (\<lambda>msg. map_of msg ''role'' = Some ''user''
                   \<or> map_of msg ''role'' = Some ''assistant'') c"

text \<open>
  A world with no file, where every path can be written, every dumped text decodes
  to the dumped value and the clock stands still, and the store the application
  builds in it: \<open>Memory("conversation_history.json", 50)\<close>.
\<close>

definition world0 :: world where
  "world0 = \<lparr>files = (\<lambda>p. Missing), on_write = (\<lambda>p. Write_ok), dumped = Holds,
             clock = sconst ''2024-01-01T00:00:00'', stdout = [], requests = []\<rparr>"

definition memory0 :: memory where
  "memory0 =
     \<lparr>memory_file = ''conversation_history.json'', max_history = 50, conversation = []\<rparr>"

text \<open>The last \<open>n\<close> elements of a list, or all of it when it has fewer.\<close>

definition most_recent :: "nat \<Rightarrow> 'a list \<Rightarrow> 'a list" where
  "most_recent n xs = drop (length xs - n) xs"

text \<open>
  The messages that a sequence of accepted calls of \<open>add\<close> appends, given the clock at
  the first call: each call reads the clock for the message and once more, when it
  saves, for \<open>last_updated\<close>.
\<close>

fun appended :: "(string \<times> string) list \<Rightarrow> string stream \<Rightarrow> message list" where
  "appended [] c = []"
| "appended ((role, message) # cs) c =
     new_message role message (shd c) # appended cs (stl (stl c))"

definition valid_role :: "string \<Rightarrow> bool" where
  "valid_role role = (role = ''user'' \<or> role = ''assistant'')"

text \<open>A message with the two fields the context block reads.\<close>

definition has_fields :: "message \<Rightarrow> bool" where
  "has_fields msg = (map_of msg ''role'' \<noteq> None \<and> map_of msg ''message'' \<noteq> None)"

text \<open>
  An engine whose provider answers, one whose provider fails (at once for \<open>generate\<close>,
  after one chunk for \<open>generate_stream\<close>), and the assistants built on them with the
  role \<open>general\<close> and the store \<open>memory0\<close>. \<open>prompt0\<close> is the prompt these assistants
  build for the input \<open>hi\<close>.
\<close>

definition engine0 :: engine where
  "engine0 = \<lparr>api_key = ''key'', model_name = ''gemini-pro'',
              model = (\<lambda>p. Responds (Some ''Hello!'')),
              model_stream = (\<lambda>p. ([''Hel'', ''lo!''], None))\<rparr>"

definition broken_engine :: engine where
  "broken_engine = \<lparr>api_key = ''key'', model_name = ''gemini-pro'',
              model = (\<lambda>p. Throws ''Connection reset''),
              model_stream = (\<lambda>p. ([''Hel''], Some ''Connection reset''))\<rparr>"

definition jarvis0 :: jarvis where
  "jarvis0 = \<lparr>engine = engine0, prompt_controller = \<lparr>current_role = General\<rparr>,
              memory = memory0, conversation_started = False\<rparr>"

definition broken_jarvis :: jarvis where
  "broken_jarvis = jarvis0\<lparr>engine := broken_engine\<rparr>"

definition prompt0 :: string where
  "prompt0 =
     general_system_prompt @ ''\<newline>'' @ ''\<newline>'' @ ''User: hi'' @ ''\<newline>'' @ ''Assistant:''"


definition memory1 :: memory where
  "memory1 = memory0\<lparr>conversation := [new_message ''user'' ''hi'' ''2024-01-01T00:00:00'']\<rparr>"

text \<open>
  A world whose store file holds the JSON text
  \<open>{"messages": [{"message": "m"}]}\<close>, and a store that holds two messages.
\<close>

definition rolefree_world :: world where
  "rolefree_world =
     world0\<lparr>files := (files world0)
       (''conversation_history.json'' :=
          Holds (PDict [(''messages'', PList [PDict [(''message'', PStr ''m'')]])]))\<rparr>"

definition memory2 :: memory where
  "memory2 =
     memory0\<lparr>conversation := [new_message ''user'' ''hi'' ''2024-01-01T00:00:00'',
                               new_message ''assistant'' ''hello'' ''2024-01-01T00:00:01'']\<rparr>"

section \<open>The prompt as the specification describes it\<close>

text \<open>
  The definitions of this section follow the words of the specification, not the
  source; the properties below compare the source with them.

  \<open>history(last_n)\<close>: the last \<open>last_n\<close> messages, none for \<open>last_n <= 0\<close>.
\<close>

definition spec_history :: "int \<Rightarrow> message list \<Rightarrow> message list" where
  "spec_history last_n c = (if last_n \<le> 0 then [] else most_recent (nat last_n) c)"

text \<open>The value of a field of a message, for a message that has the field.\<close>

definition field :: "message \<Rightarrow> string \<Rightarrow> string" where
  "field msg key = (case map_of msg key of None \<Rightarrow> [] | Some v \<Rightarrow> v)"

text \<open>
  \<open>context_block(last_n)\<close>: the fixed header line and one line per message of the
  history, \<open>User:\<close> with the text for a user message and \<open>Assistant:\<close> with the text
  for any other, or the empty string if there is no history.
\<close>

definition spec_context_line :: "message \<Rightarrow> string" where
  "spec_context_line msg =
     (if field msg ''role'' = ''user'' then ''User: '' else ''Assistant: '')
     @ field msg ''message''"

fun spec_lines :: "string list \<Rightarrow> string" where
  "spec_lines [] = []"
| "spec_lines (l # ls) = ''\<newline>'' @ l @ spec_lines ls"

definition spec_context_block :: "int \<Rightarrow> message list \<Rightarrow> string" where
  "spec_context_block last_n c =
     (if spec_history last_n c = [] then []
      else ''Previous conversation:''
           @ spec_lines (map spec_context_line (spec_history last_n c)))"

text \<open>
  \<open>assemble(role, user_input, transcript_store, context_depth)\<close>: the system prompt
  of the role, a blank line, the context block at the given depth followed by a
  blank line if the block is not empty, the line \<open>User:\<close> with the input, and the line
  \<open>Assistant:\<close>.
\<close>

definition spec_assemble :: "role_key \<Rightarrow> string \<Rightarrow> message list \<Rightarrow> int \<Rightarrow> string" where
  "spec_assemble role user_input c context_depth =
     system_prompt (ROLES role) @ ''\<newline>'' @ ''\<newline>''
     @ (if spec_context_block context_depth c = [] then []
        else spec_context_block context_depth c @ ''\<newline>'' @ ''\<newline>'')
     @ ''User: '' @ user_input @ ''\<newline>'' @ ''Assistant:''"

section \<open>Properties of the transcript store\<close>

subsection \<open>Roles outside \<open>user\<close> and \<open>assistant\<close>\<close>

text \<open>
  C6: for every role other than \<open>user\<close> and \<open>assistant\<close> and every message, \<open>add\<close>
  raises the \<open>ValueError\<close> of the role check, and the store and the world (so also the
  file of the store) are the ones before the call.
\<close>

theorem add_invalid_role:
  assumes "role \<noteq> ''user''" and "role \<noteq> ''assistant''"
  shows "add m w role message =
           (Inl (ValueError (''Role must be either 'user' or 'assistant'' @ [CHR 0x27])), m, w)"
  using assms by (simp add: add_def)

theorem add_invalid_role_witness:
  "''system'' \<noteq> ''user'' \<and> ''system'' \<noteq> ''assistant'' \<and>
   add memory0 world0 ''system'' ''hello'' =
     (Inl (ValueError (''Role must be either 'user' or 'assistant'' @ [CHR 0x27])),
      memory0, world0)"
  using add_invalid_role [of "''system''" memory0 world0 "''hello''"] by simp

subsection \<open>Saving and loading\<close>







text \<open>
  A write that the encoder refuses is not caught: the exception leaves
  \<open>_save_to_file\<close>, and \<open>add\<close> with it, after the conversation was updated, and the
  file is left with a text that is not JSON.
\<close>

lemma add_encode_error:
  assumes "valid_role role" and "on_write w (memory_file m) = Encode_fails e d"
  shows "fst (add m w role message) = Inl (UnicodeEncodeError e)
         \<and> files (snd (snd (add m w role message))) (memory_file m) = Undecodable d"
  using assms
  by (simp add: add_def valid_role_def save_to_file_def Let_def)

subsection \<open>Statistics\<close>

lemma count_role_valid:
  "roles_valid c \<Longrightarrow>
   \<exists>u a. count_role ''user'' c = Inr u \<and> count_role ''assistant'' c = Inr a
         \<and> u + a = length c"
proof (induction c)
  case Nil
  then show ?case by simp
next
  case (Cons msg c)
  then obtain u a where ua: "count_role ''user'' c = Inr u"
    "count_role ''assistant'' c = Inr a" "u + a = length c"
    by (auto simp: roles_valid_def)
  from Cons.prems
  have "map_of msg ''role'' = Some ''user'' \<or> map_of msg ''role'' = Some ''assistant''"
    by (simp add: roles_valid_def)
  then show ?case
    using ua by (auto simp: getitem_def)
qed

lemma roles_valid_slice: "roles_valid c \<Longrightarrow> roles_valid (py_slice_from i c)"
  unfolding roles_valid_def py_slice_from_def list_all_iff
  by (auto dest: in_set_dropD)

lemma roles_valid_add:
  assumes "roles_valid (conversation m)"
  shows "roles_valid (conversation (fst (snd (add m w role message))))"
proof (cases "role = ''user'' \<or> role = ''assistant''")
  case False
  then show ?thesis using assms by (simp add: add_def)
next
  case True
  then have "roles_valid (conversation m @ [new_message role message (shd (clock w))])"
    using assms by (auto simp: roles_valid_def new_message_def)
  then show ?thesis
    using True by (auto simp: add_def Let_def roles_valid_slice split: prod.splits)
qed

lemma roles_valid_run_call:
  "roles_valid (conversation (fst s)) \<Longrightarrow> roles_valid (conversation (fst (run_call c s)))"
proof (cases c)
  case (Add role body)
  assume "roles_valid (conversation (fst s))"
  then show ?thesis
    using Add roles_valid_add [of "fst s" "snd s" role body] by (cases s) simp
next
  case Clear
  then show ?thesis
    by (cases s) (simp add: clear_def Let_def roles_valid_def split: prod.splits)
qed

lemma roles_valid_run_calls:
  "roles_valid (conversation (fst s)) \<Longrightarrow> roles_valid (conversation (fst (run_calls cs s)))"
  by (induction cs arbitrary: s) (simp_all add: roles_valid_run_call)

text \<open>
  C10: from an empty conversation, after any sequence of calls of \<open>add\<close> and \<open>clear\<close>
  (whatever the bound and the world, and whether or not some call of \<open>add\<close> was
  refused), \<open>get_statistics\<close> returns, and its total is the sum of the count of user
  messages and the count of assistant messages.
\<close>

theorem statistics_total_is_sum:
  assumes "conversation m = []"
  shows "\<exists>st. get_statistics (fst (run_calls cs (m, w))) = Inr st \<and>
              total_messages st = user_messages st + assistant_messages st"
proof -
  have "roles_valid (conversation (fst (m, w)))"
    using assms by (simp add: roles_valid_def)
  then have "roles_valid (conversation (fst (run_calls cs (m, w))))"
    by (rule roles_valid_run_calls)
  then obtain u a where
    "count_role ''user'' (conversation (fst (run_calls cs (m, w)))) = Inr u"
    "count_role ''assistant'' (conversation (fst (run_calls cs (m, w)))) = Inr a"
    "u + a = length (conversation (fst (run_calls cs (m, w))))"
    using count_role_valid by blast
  then show ?thesis
    by (simp add: get_statistics_def)
qed

theorem statistics_total_is_sum_witness:
  "conversation memory0 = [] \<and>
   (\<exists>st. get_statistics
           (fst (run_calls [Add ''user'' ''hi'', Add ''assistant'' ''hello'', Clear,
                            Add ''user'' ''again''] (memory0, world0))) = Inr st \<and>
         total_messages st = user_messages st + assistant_messages st)"
  using statistics_total_is_sum
    [of memory0 "[Add ''user'' ''hi'', Add ''assistant'' ''hello'', Clear, Add ''user'' ''again'']"
        world0]
  by (simp add: memory0_def)

subsection \<open>The bound on the history\<close>

text \<open>
  C3 fails for a store built with \<open>max_history = 0\<close>: the empty conversation is within
  the bound, and after one \<open>add\<close> the conversation holds one message, more than the
  bound. The slice \<open>self.conversation[-self.max_history:]\<close> is then
  \<open>self.conversation[0:]\<close>, the whole list.
\<close>

theorem add_exceeds_zero_capacity:
  "conversation (fst (snd (add (memory0\<lparr>max_history := 0\<rparr>) world0 ''user'' ''hi'')))
     = [new_message ''user'' ''hi'' ''2024-01-01T00:00:00'']
   \<and> int (length (conversation (fst (snd
         (add (memory0\<lparr>max_history := 0\<rparr>) world0 ''user'' ''hi'')))))
       > max_history (fst (snd (add (memory0\<lparr>max_history := 0\<rparr>) world0 ''user'' ''hi'')))"
  by (simp add: add_def save_to_file_def memory0_def world0_def Let_def py_slice_from_def)

text \<open>
  With a bound of at least one the store is a queue of the most recent messages:
  after any sequence of accepted calls of \<open>add\<close>, from a conversation within the bound,
  the conversation is the last \<open>max_history\<close> messages of the old conversation followed
  by the appended ones, in their order, and so within the bound.
\<close>

lemma most_recent_append:
  "most_recent n (most_recent n xs @ ys) = most_recent n (xs @ ys)"
proof (cases "n \<le> length xs")
  case True
  then have "length xs + length ys - (length xs - n + n) + (length xs - n)
             = length xs + length ys - n"
    by simp
  then show ?thesis
    using True by (simp add: most_recent_def)
next
  case False
  then show ?thesis by (simp add: most_recent_def)
qed

lemma length_most_recent: "length (most_recent n xs) = min n (length xs)"
  by (auto simp: most_recent_def)

lemma trim_is_most_recent:
  assumes "1 \<le> N"
  shows "(if int (length c) > N then py_slice_from (- N) c else c) = most_recent (nat N) c"
proof (cases "int (length c) > N")
  case True
  then have "nat (int (length c) + - N) = length c - nat N"
    using assms by linarith
  then show ?thesis
    using True assms by (simp add: py_slice_from_def most_recent_def)
next
  case False
  then have "length c - nat N = 0"
    by linarith
  then show ?thesis
    using False by (simp add: most_recent_def)
qed

lemma add_valid_conversation:
  assumes "valid_role role" and "1 \<le> max_history m"
  shows "conversation (fst (snd (add m w role message))) =
           most_recent (nat (max_history m))
             (conversation m @ [new_message role message (shd (clock w))])"
proof -
  define c1 where "c1 = conversation m @ [new_message role message (shd (clock w))]"
  have "conversation (fst (snd (add m w role message))) =
          (if int (length c1) > max_history m then py_slice_from (- max_history m) c1 else c1)"
    using assms(1) by (simp add: add_def valid_role_def Let_def c1_def split: prod.splits)
  also have "\<dots> = most_recent (nat (max_history m)) c1"
    by (rule trim_is_most_recent [OF assms(2)])
  finally show ?thesis
    by (simp only: c1_def)
qed

lemma add_max_history: "max_history (fst (snd (add m w role message))) = max_history m"
  by (simp add: add_def Let_def split: prod.splits)

lemma save_to_file_clock: "clock (snd (save_to_file m w)) = stl (clock w)"
  by (simp add: save_to_file_def Let_def print_def split: write_result.splits)

lemma add_valid_clock:
  assumes "valid_role role"
  shows "clock (snd (snd (add m w role message))) = stl (stl (clock w))"
proof -
  define m1 where "m1 = m\<lparr>conversation :=
       (if int (length (conversation m @ [new_message role message (shd (clock w))]))
             > max_history m
        then py_slice_from (- max_history m)
               (conversation m @ [new_message role message (shd (clock w))])
        else conversation m @ [new_message role message (shd (clock w))])\<rparr>"
  have "snd (snd (add m w role message)) = snd (save_to_file m1 (w\<lparr>clock := stl (clock w)\<rparr>))"
    using assms by (simp add: add_def valid_role_def Let_def m1_def split: prod.splits)
  then show ?thesis
    by (simp add: save_to_file_clock)
qed

lemma add_sequence_fifo:
  assumes "1 \<le> max_history m"
    and "int (length (conversation m)) \<le> max_history m"
    and "list_all (\<lambda>(role, message). valid_role role) cs"
  shows "conversation (fst (run_calls (map (\<lambda>(role, message). Add role message) cs) (m, w)))
           = most_recent (nat (max_history m)) (conversation m @ appended cs (clock w))
         \<and> max_history (fst (run_calls (map (\<lambda>(role, message). Add role message) cs) (m, w)))
           = max_history m"
  using assms
proof (induction cs arbitrary: m w)
  case Nil
  then show ?case by (simp add: most_recent_def)
next
  case (Cons c cs)
  obtain role body where c: "c = (role, body)" by (cases c)
  have v: "valid_role role" using Cons.prems(3) c by simp
  define m1 where "m1 = fst (snd (add m w role body))"
  define w1 where "w1 = snd (snd (add m w role body))"
  have conv1: "conversation m1 = most_recent (nat (max_history m))
                 (conversation m @ [new_message role body (shd (clock w))])"
    unfolding m1_def by (rule add_valid_conversation [OF v Cons.prems(1)])
  have mh: "max_history m1 = max_history m"
    by (simp add: m1_def add_max_history)
  have ck: "clock w1 = stl (stl (clock w))"
    by (simp add: w1_def add_valid_clock [OF v])
  have len: "int (length (conversation m1)) \<le> max_history m1"
    using Cons.prems(1) by (simp add: conv1 mh length_most_recent)
  have step: "snd (add m w role body) = (m1, w1)"
    by (simp add: m1_def w1_def)
  have ih: "conversation (fst (run_calls (map (\<lambda>(role, message). Add role message) cs) (m1, w1)))
           = most_recent (nat (max_history m1)) (conversation m1 @ appended cs (clock w1))
         \<and> max_history (fst (run_calls (map (\<lambda>(role, message). Add role message) cs) (m1, w1)))
           = max_history m1"
    using Cons.IH [of m1 w1] Cons.prems(1,3) len mh by simp
  have "most_recent (nat (max_history m))
          (most_recent (nat (max_history m))
             (conversation m @ [new_message role body (shd (clock w))])
           @ appended cs (stl (stl (clock w))))
        = most_recent (nat (max_history m))
            ((conversation m @ [new_message role body (shd (clock w))])
             @ appended cs (stl (stl (clock w))))"
    by (rule most_recent_append)
  then show ?case
    using ih by (simp add: c step conv1 mh ck)
qed

lemma add_sequence_bounded:
  assumes "1 \<le> max_history m"
    and "int (length (conversation m)) \<le> max_history m"
    and "list_all (\<lambda>(role, message). valid_role role) cs"
  shows "int (length (conversation
            (fst (run_calls (map (\<lambda>(role, message). Add role message) cs) (m, w)))))
         \<le> max_history m"
  using add_sequence_fifo [OF assms, of w] assms(1)
  by (simp add: length_most_recent)

subsection \<open>Building a store on an existing file\<close>

text \<open>
  C2 fails for a file that holds the JSON text \<open>[]\<close>: it decodes to a list, \<open>data.get\<close>
  raises an \<open>AttributeError\<close>, the \<open>except\<close> clause does not catch it, and the
  constructor raises instead of building an empty store. Nothing is printed.
\<close>

theorem Memory_init_raises_on_json_array:
  "Memory_init ''conversation_history.json'' 50
     (world0\<lparr>files := (files world0)(''conversation_history.json'' := Holds (PList []))\<rparr>)
   = (Raised (AttributeError
        ([CHR 0x27] @ ''list'' @ [CHR 0x27] @ '' object has no attribute 'get'' @ [CHR 0x27])),
      world0\<lparr>files := (files world0)(''conversation_history.json'' := Holds (PList []))\<rparr>)"
  by (simp add: Memory_init_def load_from_file_def)

text \<open>
  The two failures the \<open>except\<close> clause does catch: for a file that cannot be read and
  for a text that is not JSON the store is built empty and one warning is printed.
\<close>

lemma Memory_init_fails_soft:
  assumes "files w path = Unreadable e \<or> files w path = Undecodable e"
  shows "Memory_init path maxh w =
           (Built \<lparr>memory_file = path, max_history = maxh, conversation = []\<rparr>,
            w\<lparr>stdout := stdout w @ [''Warning: Could not load memory file: '' @ e]\<rparr>)"
  using assms by (auto simp: Memory_init_def load_from_file_def print_def)

section \<open>Properties of the prompt assembly\<close>

lemma contains_self_prefix: "contains n (n @ b)"
proof (cases "n @ b")
  case Nil
  then show ?thesis by simp
next
  case (Cons h t)
  then have "prefix n (h # t)"
    by (metis prefixI)
  then show ?thesis
    using Cons by simp
qed

lemma contains_append: "contains n (a @ n @ b)"
  by (induction a) (auto simp: contains_self_prefix)

lemma get_history_spec: "get_history m (Some n) = spec_history n (conversation m)"
proof (cases "n \<le> 0")
  case True
  then show ?thesis by (simp add: get_history_def spec_history_def)
next
  case False
  then have "nat (int (length (conversation m)) + - n) = length (conversation m) - nat n"
    by linarith
  then show ?thesis
    using False by (simp add: get_history_def spec_history_def py_slice_from_def most_recent_def)
qed

lemma context_lines_spec:
  "list_all has_fields h \<Longrightarrow> context_lines h = Inr (map spec_context_line h)"
  by (induction h)
    (auto simp: has_fields_def getitem_def spec_context_line_def field_def Let_def)

lemma py_join_lines: "py_join ''\<newline>'' (l # ls) = l @ spec_lines ls"
  by (induction ls arbitrary: l) simp_all

lemma get_context_spec:
  assumes "list_all has_fields (spec_history n (conversation m))"
  shows "get_context_for_prompt m n = Inr (spec_context_block n (conversation m))"
  using assms context_lines_spec [OF assms]
  by (simp add: get_context_for_prompt_def get_history_spec spec_context_block_def
      py_join_lines Let_def)

lemma build_prompt0:
  "build_prompt (prompt_controller jarvis0) ''hi'' (Some (memory jarvis0)) True = Inr prompt0"
  by (simp add: build_prompt_def context_parts_def get_context_for_prompt_def get_history_def
      py_slice_from_def get_system_prompt_def jarvis0_def memory0_def prompt0_def)

text \<open>
  C5 fails for a store whose file holds a message without the field \<open>role\<close>: the
  constructor loads the message as it is and \<open>build_prompt\<close> raises a \<open>KeyError\<close>. It
  fails for a depth other than 10 as well: \<open>build_prompt\<close> takes no depth and puts the
  block of depth 10 into the prompt, which for a store of two messages is not the
  prompt assembled with the block of depth 1.
\<close>

theorem build_prompt_missing_role_or_other_depth:
  "Memory_init ''conversation_history.json'' 50 rolefree_world
     = (Built (memory0\<lparr>conversation := [[(''message'', ''m'')]]\<rparr>), rolefree_world)
   \<and> build_prompt \<lparr>current_role = General\<rparr> ''hi''
       (Some (memory0\<lparr>conversation := [[(''message'', ''m'')]]\<rparr>)) True
     = Inl (KeyError ''role'')
   \<and> build_prompt \<lparr>current_role = General\<rparr> ''hi'' (Some memory2) True
     = Inr (spec_assemble General ''hi'' (conversation memory2) 10)
   \<and> spec_assemble General ''hi'' (conversation memory2) 10
     \<noteq> spec_assemble General ''hi'' (conversation memory2) 1"
proof -
  have a: "Memory_init ''conversation_history.json'' 50 rolefree_world
     = (Built (memory0\<lparr>conversation := [[(''message'', ''m'')]]\<rparr>), rolefree_world)"
    by (simp add: Memory_init_def load_from_file_def rolefree_world_def world0_def memory0_def)
  have b: "build_prompt \<lparr>current_role = General\<rparr> ''hi''
       (Some (memory0\<lparr>conversation := [[(''message'', ''m'')]]\<rparr>)) True
     = Inl (KeyError ''role'')"
    by (simp add: build_prompt_def context_parts_def get_context_for_prompt_def
        get_history_def py_slice_from_def getitem_def memory0_def)
  have h10: "spec_history 10 (conversation memory2) = conversation memory2"
    by (simp add: spec_history_def most_recent_def memory2_def memory0_def)
  have h1: "spec_history 1 (conversation memory2)
              = [new_message ''assistant'' ''hello'' ''2024-01-01T00:00:01'']"
    by (simp add: spec_history_def most_recent_def memory2_def memory0_def)
  have b10: "spec_context_block 10 (conversation memory2)
               = ''Previous conversation:\<newline>User: hi\<newline>Assistant: hello''"
    unfolding spec_context_block_def h10
    by (simp add: memory2_def memory0_def new_message_def spec_context_line_def field_def)
  have b1: "spec_context_block 1 (conversation memory2)
               = ''Previous conversation:\<newline>Assistant: hello''"
    unfolding spec_context_block_def h1
    by (simp add: new_message_def spec_context_line_def field_def)
  have c: "build_prompt \<lparr>current_role = General\<rparr> ''hi'' (Some memory2) True
     = Inr (spec_assemble General ''hi'' (conversation memory2) 10)"
    unfolding spec_assemble_def b10
    by (simp add: build_prompt_def context_parts_def get_context_for_prompt_def
        get_history_def py_slice_from_def getitem_def memory2_def memory0_def new_message_def
        get_system_prompt_def)
  have d: "spec_assemble General ''hi'' (conversation memory2) 10
     \<noteq> spec_assemble General ''hi'' (conversation memory2) 1"
    unfolding spec_assemble_def b10 b1 by simp
  show ?thesis using a b c d by simp
qed

text \<open>
  C5, amended: for every role of the catalogue, every input and every store whose
  last ten messages have the fields \<open>role\<close> and \<open>message\<close>, \<open>build_prompt\<close> returns the
  prompt the specification assembles at depth 10: the system prompt of the role, a
  blank line, the context block of depth 10 followed by a blank line when the block
  is not empty, the line \<open>User:\<close> with the input, and the line \<open>Assistant:\<close>; the block
  is the one the store returns for that depth. The prompt ends with the line
  \<open>Assistant:\<close> and contains \<open>User:\<close> with the input as it is.
\<close>

theorem build_prompt_layout:
  assumes "list_all has_fields (spec_history 10 (conversation m))"
  shows "get_context_for_prompt m 10 = Inr (spec_context_block 10 (conversation m))
         \<and> build_prompt pc user_input (Some m) True
           = Inr (spec_assemble (current_role pc) user_input (conversation m) 10)
         \<and> suffix (''\<newline>'' @ ''Assistant:'')
             (spec_assemble (current_role pc) user_input (conversation m) 10)
         \<and> contains (''User: '' @ user_input)
             (spec_assemble (current_role pc) user_input (conversation m) 10)"
proof -
  define block where "block = spec_context_block 10 (conversation m)"
  define front where "front = system_prompt (ROLES (current_role pc)) @ ''\<newline>'' @ ''\<newline>''
               @ (if block = [] then [] else block @ ''\<newline>'' @ ''\<newline>'')"
  have c: "get_context_for_prompt m 10 = Inr block"
    unfolding block_def by (rule get_context_spec [OF assms])
  have a: "spec_assemble (current_role pc) user_input (conversation m) 10
             = front @ (''User: '' @ user_input) @ (''\<newline>'' @ ''Assistant:'')"
    by (simp add: spec_assemble_def front_def block_def)
  have b: "build_prompt pc user_input (Some m) True
             = Inr (front @ (''User: '' @ user_input) @ (''\<newline>'' @ ''Assistant:''))"
    using c by (simp add: build_prompt_def context_parts_def get_system_prompt_def front_def)
  have s: "suffix (''\<newline>'' @ ''Assistant:'')
             (front @ (''User: '' @ user_input) @ (''\<newline>'' @ ''Assistant:''))"
    unfolding suffix_def
    by (intro exI [of _ "front @ (''User: '' @ user_input)"]) simp
  have k: "contains (''User: '' @ user_input)
             (front @ (''User: '' @ user_input) @ (''\<newline>'' @ ''Assistant:''))"
    by (rule contains_append)
  show ?thesis
    using c b s k unfolding a block_def by simp
qed

theorem build_prompt_layout_witness:
  "list_all has_fields (spec_history 10 (conversation memory1))
   \<and> get_context_for_prompt memory1 10 = Inr (spec_context_block 10 (conversation memory1))
   \<and> build_prompt \<lparr>current_role = Coder\<rparr> ''and now?'' (Some memory1) True
       = Inr (spec_assemble Coder ''and now?'' (conversation memory1) 10)
   \<and> suffix (''\<newline>'' @ ''Assistant:'')
       (spec_assemble Coder ''and now?'' (conversation memory1) 10)
   \<and> contains (''User: '' @ ''and now?'')
       (spec_assemble Coder ''and now?'' (conversation memory1) 10)"
proof -
  have h: "list_all has_fields (spec_history 10 (conversation memory1))"
    by (simp add: spec_history_def most_recent_def memory1_def memory0_def has_fields_def
        new_message_def)
  show ?thesis
    using build_prompt_layout [OF h, of "\<lparr>current_role = Coder\<rparr>" "''and now?''"] h
    by simp
qed

section \<open>Properties of the session coordinator\<close>

lemma generate_world:
  "generate eng w prompt = (r, w1) \<Longrightarrow> w1 = w\<lparr>requests := requests w @ [prompt]\<rparr>"
  by (auto simp: generate_def Let_def split: provider_result.splits option.splits if_splits)

lemma generate_broken:
  "generate broken_engine w p =
     (Inl (RuntimeError ''Generation failed: Connection reset''),
      w\<lparr>requests := requests w @ [p]\<rparr>)"
proof -
  have "lower ''Connection reset'' = ''connection reset''"
    by code_simp
  then show ?thesis
    by (simp add: generate_def broken_engine_def Let_def)
qed

lemma strip_hi: "strip ''hi'' \<noteq> []"
  by (simp add: strip_def is_space_def)

lemma build_prompt_broken:
  "build_prompt (prompt_controller broken_jarvis) ''hi'' (Some (memory broken_jarvis)) True
     = Inr prompt0"
  using build_prompt0 by (simp add: broken_jarvis_def jarvis0_def)

subsection \<open>Empty input\<close>

text \<open>
  C7: for an input that is empty or consists of white space, \<open>respond\<close> returns the
  fixed message and leaves the assistant and the world as they were: no request has
  gone to the provider, and the statistics of the store are the ones before the call.
\<close>

theorem respond_no_input:
  assumes "user_input = [] \<or> strip user_input = []"
  shows "respond a w user_input save_to_memory =
           (''I didn't receive any input. Please tell me how I can help you.'', a, w)
         \<and> requests (snd (snd (respond a w user_input save_to_memory))) = requests w
         \<and> get_statistics (memory (fst (snd (respond a w user_input save_to_memory))))
             = get_statistics (memory a)"
  using assms by (auto simp: respond_def)

theorem respond_no_input_witness:
  "('' \<newline> '' = [] \<or> strip '' \<newline> '' = [])
   \<and> respond jarvis0 world0 '' \<newline> '' True =
       (''I didn't receive any input. Please tell me how I can help you.'', jarvis0, world0)"
proof -
  have "strip '' \<newline> '' = []"
    by (simp add: strip_def is_space_def)
  then show ?thesis
    using respond_no_input [of "'' \<newline> ''" jarvis0 world0 True] by simp
qed

subsection \<open>A failed generation\<close>

text \<open>
  C4: for an input that is not empty and not white space, when \<open>generate\<close> raises a
  \<open>RuntimeError\<close> on the prompt built for it, \<open>respond\<close> returns the apology with the
  text of the error in it, whatever \<open>save_to_memory\<close> is; the assistant, and with it
  the store, is unchanged, and the world differs only by the request that was sent.
\<close>

theorem respond_generation_failure:
  assumes "user_input \<noteq> []" and "strip user_input \<noteq> []"
    and "build_prompt (prompt_controller a) user_input (Some (memory a)) True = Inr prompt"
    and "generate (engine a) w prompt = (Inl (RuntimeError detail), w1)"
  shows "respond a w user_input save_to_memory =
           (''I apologize, but I encountered an issue: '' @ detail
              @ ''. Please try again or rephrase your request.'', a, w1)
         \<and> w1 = w\<lparr>requests := requests w @ [prompt]\<rparr>"
  using assms generate_world [OF assms(4)]
  by (simp add: respond_def error_reply_def format_error_response_def)

theorem respond_generation_failure_witness:
  "''hi'' \<noteq> [] \<and> strip ''hi'' \<noteq> []
   \<and> build_prompt (prompt_controller broken_jarvis) ''hi'' (Some (memory broken_jarvis)) True
       = Inr prompt0
   \<and> generate (engine broken_jarvis) world0 prompt0
       = (Inl (RuntimeError ''Generation failed: Connection reset''),
          world0\<lparr>requests := requests world0 @ [prompt0]\<rparr>)
   \<and> respond broken_jarvis world0 ''hi'' True =
       (''I apologize, but I encountered an issue: '' @ ''Generation failed: Connection reset''
          @ ''. Please try again or rephrase your request.'',
        broken_jarvis, world0\<lparr>requests := requests world0 @ [prompt0]\<rparr>)"
proof -
  have g: "generate (engine broken_jarvis) world0 prompt0
       = (Inl (RuntimeError ''Generation failed: Connection reset''),
          world0\<lparr>requests := requests world0 @ [prompt0]\<rparr>)"
    by (simp add: generate_broken broken_jarvis_def)
  show ?thesis
    using respond_generation_failure [OF _ strip_hi build_prompt_broken g, of True]
      strip_hi build_prompt_broken g
    by simp
qed

subsection \<open>A reply that is not saved\<close>

text \<open>
  C9: for an input that is not empty and not white space, when \<open>generate\<close> returns a
  text on the prompt built for it, \<open>respond\<close> with \<open>save_to_memory\<close> false returns that
  text; the assistant, and with it the store, is unchanged, and the world differs only
  by the request that was sent.
\<close>

theorem respond_without_saving:
  assumes "user_input \<noteq> []" and "strip user_input \<noteq> []"
    and "build_prompt (prompt_controller a) user_input (Some (memory a)) True = Inr prompt"
    and "generate (engine a) w prompt = (Inr response, w1)"
  shows "respond a w user_input False = (response, a, w1)
         \<and> w1 = w\<lparr>requests := requests w @ [prompt]\<rparr>"
  using assms generate_world [OF assms(4)]
  by (simp add: respond_def)

theorem respond_without_saving_witness:
  "''hi'' \<noteq> [] \<and> strip ''hi'' \<noteq> []
   \<and> build_prompt (prompt_controller jarvis0) ''hi'' (Some (memory jarvis0)) True = Inr prompt0
   \<and> generate (engine jarvis0) world0 prompt0
       = (Inr ''Hello!'', world0\<lparr>requests := requests world0 @ [prompt0]\<rparr>)
   \<and> respond jarvis0 world0 ''hi'' False
       = (''Hello!'', jarvis0, world0\<lparr>requests := requests world0 @ [prompt0]\<rparr>)"
proof -
  have g: "generate (engine jarvis0) world0 prompt0
       = (Inr ''Hello!'', world0\<lparr>requests := requests world0 @ [prompt0]\<rparr>)"
    by (simp add: generate_def jarvis0_def engine0_def)
  show ?thesis
    using respond_without_saving [OF _ strip_hi build_prompt0 g] strip_hi build_prompt0 g
    by simp
qed

subsection \<open>A stream that fails\<close>

text \<open>
  C1 fails when the provider raises after its first chunk: \<open>generate_stream\<close> catches
  the exception and yields its text as one more fragment, so the loop of
  \<open>respond_stream\<close> ends without an exception and the user turn and an assistant turn,
  the chunk joined with the text of the error, are appended to the store and written
  to its file. The store was empty and the file missing before the call.
\<close>

theorem respond_stream_persists_failed_stream:
  "fst (respond_stream broken_jarvis world0 ''hi'' True)
     = [''Hel'', ''Error in streaming: Connection reset'']
   \<and> conversation (memory (fst (snd (respond_stream broken_jarvis world0 ''hi'' True))))
     = [new_message ''user'' ''hi'' ''2024-01-01T00:00:00'',
        new_message ''assistant'' ''HelError in streaming: Connection reset''
          ''2024-01-01T00:00:00'']
   \<and> files (snd (snd (respond_stream broken_jarvis world0 ''hi'' True)))
       ''conversation_history.json''
     = Holds (PDict [(''messages'', pyval_of_conversation
         [new_message ''user'' ''hi'' ''2024-01-01T00:00:00'',
          new_message ''assistant'' ''HelError in streaming: Connection reset''
            ''2024-01-01T00:00:00'']),
         (''last_updated'', PStr ''2024-01-01T00:00:00'')])
   \<and> conversation (memory broken_jarvis) = []
   \<and> files world0 ''conversation_history.json'' = Missing"
  using strip_hi
  unfolding respond_stream_def build_prompt_broken
  by (simp add: generate_stream_def broken_jarvis_def jarvis0_def broken_engine_def add_def
      save_to_file_def document_def Let_def memory0_def world0_def)

end
